theory Spec2Isabelle
  imports Complex_Main "HOL-Library.Sublist"
begin

section \<open>JavaScript values used by the weather pipeline\<close>

text \<open>
  A JavaScript number is an IEEE double. The code under study distinguishes NaN from the
  other numbers (\<open>isNaN\<close>), so the special values are kept apart. Finite values are
  modelled as rationals with exact arithmetic: rounding, overflow to an infinity and the
  sign of zero are not modelled.
\<close>

datatype number = Finite rat | PosInf | NegInf | NaN

definition isNaN :: "number \<Rightarrow> bool" where
  "isNaN x = (x = NaN)"

fun num_neg :: "number \<Rightarrow> number" where
  "num_neg (Finite a) = Finite (- a)"
| "num_neg PosInf = NegInf"
| "num_neg NegInf = PosInf"
| "num_neg NaN = NaN"

fun num_add :: "number \<Rightarrow> number \<Rightarrow> number" where
  "num_add NaN _ = NaN"
| "num_add _ NaN = NaN"
| "num_add (Finite a) (Finite b) = Finite (a + b)"
| "num_add PosInf NegInf = NaN"
| "num_add NegInf PosInf = NaN"
| "num_add PosInf _ = PosInf"
| "num_add NegInf _ = NegInf"
| "num_add (Finite a) PosInf = PosInf"
| "num_add (Finite a) NegInf = NegInf"

definition num_sub :: "number \<Rightarrow> number \<Rightarrow> number" where
  "num_sub a b = num_add a (num_neg b)"

text \<open>The sign of a non-NaN number: \<open>-1\<close>, \<open>0\<close> or \<open>1\<close>.\<close>

fun num_sgn :: "number \<Rightarrow> int" where
  "num_sgn (Finite a) = (if a < 0 then - 1 else if a = 0 then 0 else 1)"
| "num_sgn PosInf = 1"
| "num_sgn NegInf = - 1"
| "num_sgn NaN = 0"

definition signed_inf :: "int \<Rightarrow> number" where
  "signed_inf s = (if s < 0 then NegInf else PosInf)"


fun num_div :: "number \<Rightarrow> number \<Rightarrow> number" where
  "num_div NaN _ = NaN"
| "num_div _ NaN = NaN"
| "num_div (Finite a) (Finite b) =
     (if b \<noteq> 0 then Finite (a / b)
      else if a = 0 then NaN else signed_inf (num_sgn (Finite a)))"
| "num_div (Finite a) _ = Finite 0"
| "num_div x (Finite b) =
     (if b = 0 then x else signed_inf (num_sgn x * num_sgn (Finite b)))"
| "num_div _ _ = NaN"

text \<open>Comparisons: every comparison with NaN is false.\<close>

fun num_less :: "number \<Rightarrow> number \<Rightarrow> bool" where
  "num_less NaN _ = False"
| "num_less _ NaN = False"
| "num_less (Finite a) (Finite b) = (a < b)"
| "num_less NegInf NegInf = False"
| "num_less NegInf _ = True"
| "num_less _ NegInf = False"
| "num_less PosInf _ = False"
| "num_less (Finite a) PosInf = True"

definition num_greater :: "number \<Rightarrow> number \<Rightarrow> bool" where
  "num_greater a b = num_less b a"

definition num_le :: "number \<Rightarrow> number \<Rightarrow> bool" where
  "num_le a b = (\<not> isNaN a \<and> \<not> isNaN b \<and> \<not> num_less b a)"

definition num_ge :: "number \<Rightarrow> number \<Rightarrow> bool" where
  "num_ge a b = num_le b a"


definition of_count :: "nat \<Rightarrow> number" where
  "of_count n = Finite (of_nat n)"

text \<open>The exceptions the code can meet.\<close>

datatype js_error = RangeError | TypeError | Error string

section \<open>Dates\<close>

text \<open>
  A \<open>Date\<close> object holds a time value: a whole number of milliseconds since the epoch,
  or NaN (an Invalid Date). The day arithmetic below follows the definitions of the
  ECMAScript specification (Day, here \<open>DayNumber\<close>, DayFromYear, YearFromTime, MonthFromTime, DateFromTime,
  MakeDay, MakeTime, MakeDate, TimeClip).
\<close>

datatype Date = ValidDate int | InvalidDate

fun getTime :: "Date \<Rightarrow> number" where
  "getTime (ValidDate t) = Finite (of_int t)"
| "getTime InvalidDate = NaN"

definition msPerDay :: int where
  "msPerDay = 86400000"

definition DayNumber :: "int \<Rightarrow> int" where
  "DayNumber t = t div msPerDay"

definition TimeWithinDay :: "int \<Rightarrow> int" where
  "TimeWithinDay t = t mod msPerDay"

definition DayFromYear :: "int \<Rightarrow> int" where
  "DayFromYear y =
     365 * (y - 1970) + (y - 1969) div 4 - (y - 1901) div 100 + (y - 1601) div 400"

definition InLeapYear :: "int \<Rightarrow> bool" where
  "InLeapYear y = (y mod 4 = 0 \<and> (y mod 100 \<noteq> 0 \<or> y mod 400 = 0))"


text \<open>
  The year of a day number: the largest \<open>y\<close> with \<open>DayFromYear y \<le> d\<close>, computed from an
  estimate that is off by at most one.
\<close>

definition YearFromDay :: "int \<Rightarrow> int" where
  "YearFromDay d =
     (let y = 1970 + (400 * d) div 146097
      in if d < DayFromYear y then y - 1
         else if DayFromYear (y + 1) \<le> d then y + 1
         else y)"

definition YearFromTime :: "int \<Rightarrow> int" where
  "YearFromTime t = YearFromDay (DayNumber t)"

definition DayWithinYear :: "int \<Rightarrow> int" where
  "DayWithinYear t = DayNumber t - DayFromYear (YearFromTime t)"

text \<open>The first day within the year of month \<open>m\<close> (0 = January).\<close>

definition MonthStart :: "bool \<Rightarrow> int \<Rightarrow> int" where
  "MonthStart leap m =
     (let l = (if leap then 1 else 0)
      in if m = 0 then 0 else if m = 1 then 31 else if m = 2 then 59 + l
         else if m = 3 then 90 + l else if m = 4 then 120 + l else if m = 5 then 151 + l
         else if m = 6 then 181 + l else if m = 7 then 212 + l else if m = 8 then 243 + l
         else if m = 9 then 273 + l else if m = 10 then 304 + l else 334 + l)"

definition MonthFromDay :: "bool \<Rightarrow> int \<Rightarrow> int" where
  "MonthFromDay leap d =
     (let l = (if leap then 1 else 0)
      in if d < 31 then 0 else if d < 59 + l then 1 else if d < 90 + l then 2
         else if d < 120 + l then 3 else if d < 151 + l then 4 else if d < 181 + l then 5
         else if d < 212 + l then 6 else if d < 243 + l then 7 else if d < 273 + l then 8
         else if d < 304 + l then 9 else if d < 334 + l then 10 else 11)"

definition MonthFromTime :: "int \<Rightarrow> int" where
  "MonthFromTime t = MonthFromDay (InLeapYear (YearFromTime t)) (DayWithinYear t)"

definition DateFromTime :: "int \<Rightarrow> int" where
  "DateFromTime t =
     DayWithinYear t - MonthStart (InLeapYear (YearFromTime t)) (MonthFromTime t) + 1"

definition DaysInMonth :: "int \<Rightarrow> int \<Rightarrow> int" where
  "DaysInMonth y m =
     (if m = 11 then 31 else MonthStart (InLeapYear y) (m + 1) - MonthStart (InLeapYear y) m)"

definition MakeDay :: "int \<Rightarrow> int \<Rightarrow> int \<Rightarrow> int" where
  "MakeDay y m dt = DayFromYear y + MonthStart (InLeapYear y) m + dt - 1"

definition MakeTime :: "int \<Rightarrow> int \<Rightarrow> int \<Rightarrow> int \<Rightarrow> int" where
  "MakeTime h mi s ms = h * 3600000 + mi * 60000 + s * 1000 + ms"

definition MakeDate :: "int \<Rightarrow> int \<Rightarrow> int" where
  "MakeDate day tm = day * msPerDay + tm"

definition TimeClip :: "int \<Rightarrow> Date" where
  "TimeClip t = (if \<bar>t\<bar> > 8640000000000000 then InvalidDate else ValidDate t)"

subsection \<open>Formatting: \<open>toISOString\<close>\<close>

definition digit_char :: "nat \<Rightarrow> char" where
  "digit_char d = char_of (48 + d)"

primrec pad_digits :: "nat \<Rightarrow> nat \<Rightarrow> string" where
  "pad_digits 0 k = []"
| "pad_digits (Suc n) k = digit_char (k div 10 ^ n mod 10) # pad_digits n k"

definition year_string :: "int \<Rightarrow> string" where
  "year_string y =
     (if 0 \<le> y \<and> y \<le> 9999 then pad_digits 4 (nat y)
      else (if y < 0 then ''-'' else ''+'') @ pad_digits 6 (nat \<bar>y\<bar>))"

definition iso_string :: "int \<Rightarrow> string" where
  "iso_string t =
     (let tm = TimeWithinDay t
      in year_string (YearFromTime t) @ ''-'' @ pad_digits 2 (nat (MonthFromTime t + 1))
         @ ''-'' @ pad_digits 2 (nat (DateFromTime t))
         @ ''T'' @ pad_digits 2 (nat (tm div 3600000))
         @ '':'' @ pad_digits 2 (nat (tm div 60000 mod 60))
         @ '':'' @ pad_digits 2 (nat (tm div 1000 mod 60))
         @ ''.'' @ pad_digits 3 (nat (tm mod 1000)) @ ''Z'')"

text \<open>\<open>Date.prototype.toISOString\<close> throws a RangeError on an Invalid Date.\<close>

fun toISOString :: "Date \<Rightarrow> js_error + string" where
  "toISOString (ValidDate t) = Inr (iso_string t)"
| "toISOString InvalidDate = Inl RangeError"

subsection \<open>Parsing: \<open>new Date(string)\<close>\<close>

text \<open>
  ECMAScript fixes the meaning of the Date Time String Format; for every other string
  the result is left to the implementation, and a date-time string without an offset is
  read in the local time zone. The model reads the date-only forms and the date-time
  forms that end in \<open>Z\<close> itself, with every field in its legal range, and hands any
  other string to the parameter \<open>impl\<close>, the implementation's own parser.
\<close>

definition digit_val :: "char \<Rightarrow> nat option" where
  "digit_val c =
     (let n = (of_char c :: nat) in if 48 \<le> n \<and> n \<le> 57 then Some (n - 48) else None)"

primrec read_digits :: "nat \<Rightarrow> string \<Rightarrow> (nat \<times> string) option" where
  "read_digits 0 s = Some (0, s)"
| "read_digits (Suc n) s =
     (case s of
        [] \<Rightarrow> None
      | c # cs \<Rightarrow>
          (case digit_val c of
             None \<Rightarrow> None
           | Some d \<Rightarrow>
               (case read_digits n cs of
                  None \<Rightarrow> None
                | Some (v, rest) \<Rightarrow> Some (d * 10 ^ n + v, rest))))"

definition read_year :: "string \<Rightarrow> (int \<times> string) option" where
  "read_year s =
     (case s of
        [] \<Rightarrow> None
      | c # cs \<Rightarrow>
          if c = CHR ''+'' \<or> c = CHR ''-'' then
            (case read_digits 6 cs of
               None \<Rightarrow> None
             | Some (v, rest) \<Rightarrow>
                 if c = CHR ''-'' then (if v = 0 then None else Some (- int v, rest))
                 else Some (int v, rest))
          else
            (case read_digits 4 s of
               None \<Rightarrow> None
             | Some (v, rest) \<Rightarrow> Some (int v, rest)))"

text \<open>The time of day after the \<open>T\<close>: \<open>HH:mm\<close>, \<open>HH:mm:ss\<close> or \<open>HH:mm:ss.sss\<close>, then \<open>Z\<close>.\<close>

definition read_seconds :: "string \<Rightarrow> (int \<times> int) option" where
  "read_seconds s =
     (if s = ''Z'' then Some (0, 0)
      else case s of
        [] \<Rightarrow> None
      | c # cs \<Rightarrow>
          if c \<noteq> CHR '':'' then None
          else (case read_digits 2 cs of
             None \<Rightarrow> None
           | Some (sec, r) \<Rightarrow>
               if sec > 59 then None
               else if r = ''Z'' then Some (int sec, 0)
               else (case r of
                  [] \<Rightarrow> None
                | c' # r' \<Rightarrow>
                    if c' \<noteq> CHR ''.'' then None
                    else (case read_digits 3 r' of
                       None \<Rightarrow> None
                     | Some (ms, r'') \<Rightarrow>
                         if r'' = ''Z'' then Some (int sec, int ms) else None))))"

definition read_time_utc :: "string \<Rightarrow> int option" where
  "read_time_utc s =
     (case read_digits 2 s of
        None \<Rightarrow> None
      | Some (h, r) \<Rightarrow>
          if h > 23 then None
          else (case r of
             [] \<Rightarrow> None
           | c # cs \<Rightarrow>
               if c \<noteq> CHR '':'' then None
               else (case read_digits 2 cs of
                  None \<Rightarrow> None
                | Some (mi, r') \<Rightarrow>
                    if mi > 59 then None
                    else (case read_seconds r' of
                       None \<Rightarrow> None
                     | Some (sec, ms) \<Rightarrow> Some (MakeTime (int h) (int mi) sec ms)))))"

text \<open>What follows the date: nothing (a date-only form, read as UTC) or \<open>T\<close> and a time.\<close>

definition read_tail :: "int \<Rightarrow> string \<Rightarrow> int option" where
  "read_tail day s =
     (case s of
        [] \<Rightarrow> Some (MakeDate day 0)
      | c # cs \<Rightarrow>
          if c \<noteq> CHR ''T'' then None
          else (case read_time_utc cs of
             None \<Rightarrow> None
           | Some tm \<Rightarrow> Some (MakeDate day tm)))"

definition read_day_of_month :: "int \<Rightarrow> int \<Rightarrow> string \<Rightarrow> int option" where
  "read_day_of_month y m s =
     (case s of
        [] \<Rightarrow> read_tail (MakeDay y m 1) s
      | c # cs \<Rightarrow>
          if c \<noteq> CHR ''-'' then read_tail (MakeDay y m 1) s
          else (case read_digits 2 cs of
             None \<Rightarrow> None
           | Some (d, r) \<Rightarrow>
               if d < 1 \<or> int d > DaysInMonth y m then None
               else read_tail (MakeDay y m (int d)) r))"

definition parse_utc_format :: "string \<Rightarrow> int option" where
  "parse_utc_format s =
     (case read_year s of
        None \<Rightarrow> None
      | Some (y, r) \<Rightarrow>
          (case r of
             [] \<Rightarrow> read_tail (MakeDay y 0 1) r
           | c # cs \<Rightarrow>
               if c \<noteq> CHR ''-'' then read_tail (MakeDay y 0 1) r
               else (case read_digits 2 cs of
                  None \<Rightarrow> None
                | Some (m, r') \<Rightarrow>
                    if m < 1 \<or> m > 12 then None
                    else read_day_of_month y (int m - 1) r')))"

definition new_Date :: "(string \<Rightarrow> Date) \<Rightarrow> string \<Rightarrow> Date" where
  "new_Date impl s =
     (case parse_utc_format s of
        Some t \<Rightarrow> TimeClip t
      | None \<Rightarrow> impl s)"


section \<open>The data model\<close>

record TimePoint =
  time :: Date
  temperature :: number

datatype TimeUnit = Hour | Day | OtherUnit string

text \<open>
  An entry of \<open>hourly.temperature_2m\<close> as it arrives from JSON: a number, or a value
  that is not a number (\<open>null\<close>, and \<open>undefined\<close> for a read past the end).
\<close>

datatype js_value = JSNumber number | JSNotNumber

record HourlyUnits =
  units_time :: string
  units_temperature_2m :: string

text \<open>The arrays of \<open>hourly\<close>; \<open>None\<close> is an absent (null or undefined) field.\<close>

record Hourly =
  hourly_time :: "string list option"
  hourly_temperature_2m :: "js_value list option"

record WeatherData =
  latitude :: number
  longitude :: number
  generationtime_ms :: number
  utc_offset_seconds :: number
  timezone :: string
  timezone_abbreviation :: string
  elevation :: number
  hourly_units :: HourlyUnits
  hourly :: "Hourly option"


section \<open>calculateCentroid\<close>




section \<open>parseRawWeatherData\<close>

text \<open>\<open>temps[i]\<close>: a read past the end of a JavaScript array gives \<open>undefined\<close>.\<close>

definition array_get :: "js_value list \<Rightarrow> nat \<Rightarrow> js_value" where
  "array_get xs i = (if i < length xs then xs ! i else JSNotNumber)"

text \<open>\<open>xs.splice(k)\<close> removes, in place, every element from index \<open>k\<close> on.\<close>

definition splice_from :: "nat \<Rightarrow> 'a list \<Rightarrow> 'a list" where
  "splice_from k xs = take k xs"

definition parse_point ::
  "(string \<Rightarrow> Date) \<Rightarrow> js_value list \<Rightarrow> nat \<times> string \<Rightarrow> TimePoint option" where
  "parse_point impl temps p =
     (case p of (i, isoStr) \<Rightarrow>
        let date = new_Date impl isoStr;
            temperature = array_get temps i
        in if isNaN (getTime date) then None
           else (case temperature of
              JSNotNumber \<Rightarrow> None
            | JSNumber v \<Rightarrow>
                if isNaN v then None else Some \<lparr>time = date, temperature = v\<rparr>))"

text \<open>
  The function returns the parsed points; it also shortens the arrays of its argument in
  place when their lengths differ, so the model returns the payload as the call leaves it.
\<close>

definition parseRawWeatherData ::
  "(string \<Rightarrow> Date) \<Rightarrow> WeatherData option \<Rightarrow> TimePoint list \<times> WeatherData option" where
  "parseRawWeatherData impl raw =
     (case raw of
        None \<Rightarrow> ([], raw)
      | Some w \<Rightarrow>
          (case hourly w of
             None \<Rightarrow> ([], raw)
           | Some h \<Rightarrow>
               (case hourly_time h of
                  None \<Rightarrow> ([], raw)
                | Some timesArr \<Rightarrow>
                    (case hourly_temperature_2m h of
                       None \<Rightarrow> ([], raw)
                     | Some tempsArr \<Rightarrow>
                         if length timesArr = 0 \<or> length tempsArr = 0 then ([], raw)
                         else
                           let minLength = min (length timesArr) (length tempsArr);
                               timesArr' = (if length timesArr \<noteq> length tempsArr
                                         then splice_from minLength timesArr else timesArr);
                               tempsArr' = (if length timesArr \<noteq> length tempsArr
                                         then splice_from minLength tempsArr else tempsArr);
                               result = List.map_filter (parse_point impl tempsArr')
                                          (enumerate 0 timesArr')
                           in (result,
                               Some (w\<lparr>hourly := Some (h\<lparr>hourly_time := Some timesArr',
                                        hourly_temperature_2m := Some tempsArr'\<rparr>)\<rparr>))))))"

section \<open>filterByRange\<close>

text \<open>
  The arguments of a \<open>console.log\<close> call are evaluated before the call, so a
  \<open>toISOString\<close> among them can throw. \<open>log_strings\<close> is
  \<open>range.map((d) => d.toISOString())\<close>.
\<close>

fun log_strings :: "Date list \<Rightarrow> js_error + string list" where
  "log_strings [] = Inr []"
| "log_strings (d # ds) =
     (case toISOString d of
        Inl e \<Rightarrow> Inl e
      | Inr s \<Rightarrow> (case log_strings ds of Inl e \<Rightarrow> Inl e | Inr ss \<Rightarrow> Inr (s # ss)))"

definition in_range :: "Date \<Rightarrow> Date \<Rightarrow> TimePoint \<Rightarrow> bool" where
  "in_range start endd pt =
     (if isNaN (getTime (time pt)) then False
      else num_ge (getTime (time pt)) (getTime start) \<and> num_le (getTime (time pt)) (getTime endd))"

function filterByRange :: "TimePoint list \<Rightarrow> Date list \<Rightarrow> js_error + TimePoint list" where
  "filterByRange series rng =
     (case log_strings rng of
        Inl e \<Rightarrow> Inl e
      | Inr _ \<Rightarrow>
          if length series = 0 then Inr []
          else if length rng \<noteq> 2 then Inr series
          else
            let start = rng ! 0; endd = rng ! 1
            in if isNaN (getTime start) \<or> isNaN (getTime endd) then Inr series
               else if num_greater (getTime start) (getTime endd)
                    then filterByRange series [endd, start]
               else
                 let filtered = filter (in_range start endd) series
                 in (case log_strings [start, endd] of
                       Inl e \<Rightarrow> Inl e
                     | Inr _ \<Rightarrow> Inr filtered))"
  by pat_completeness auto

termination
proof (relation "measure (\<lambda>(series, rng).
    if length rng = 2 \<and> num_greater (getTime (rng ! 0)) (getTime (rng ! 1)) then 1 else 0)")
  show "wf (measure (\<lambda>(series, rng).
    if length rng = 2 \<and> num_greater (getTime (rng ! 0)) (getTime (rng ! 1))
    then 1 else (0::nat)))"
    by simp
next
  fix series :: "TimePoint list" and rng :: "Date list" and x2 x xa
  assume len: "\<not> length rng \<noteq> 2"
    and x: "x = rng ! 0" and xa: "xa = rng ! 1"
    and gt: "num_greater (getTime x) (getTime xa)"
  have "\<not> num_greater (getTime xa) (getTime x)"
    using gt by (cases x; cases xa) (auto simp: num_greater_def)
  then show "((series, [xa, x]), series, rng)
    \<in> measure (\<lambda>(series, rng).
        if length rng = 2 \<and> num_greater (getTime (rng ! 0)) (getTime (rng ! 1))
        then 1 else 0)"
    using len x xa gt by simp
qed

declare filterByRange.simps [simp del]

section \<open>aggregateByUnit\<close>

text \<open>
  The buckets are a JavaScript \<open>Map\<close>, which iterates in insertion order: an association
  list whose keys are distinct, a new key going to the end.
\<close>

record Bucket =
  sum_acc :: number
  count_acc :: nat
  dates_acc :: "Date list"

type_synonym Buckets = "(string \<times> Bucket) list"

definition Map_has :: "Buckets \<Rightarrow> string \<Rightarrow> bool" where
  "Map_has m k = (map_of m k \<noteq> None)"

definition Map_get :: "Buckets \<Rightarrow> string \<Rightarrow> Bucket option" where
  "Map_get m k = map_of m k"

fun Map_set :: "Buckets \<Rightarrow> string \<Rightarrow> Bucket \<Rightarrow> Buckets" where
  "Map_set [] k v = [(k, v)]"
| "Map_set (p # ps) k v = (if fst p = k then (k, v) # ps else p # Map_set ps k v)"

text \<open>The body of the \<open>forEach\<close> callback for one point.\<close>

definition bucket_step :: "TimeUnit \<Rightarrow> Buckets \<Rightarrow> TimePoint \<Rightarrow> js_error + Buckets" where
  "bucket_step unit buckets pt =
     (if isNaN (getTime (time pt)) then Inr buckets
      else if isNaN (temperature pt) then Inr buckets
      else if unit = Day then
        (case toISOString (time pt) of
           Inl e \<Rightarrow> Inl e
         | Inr s \<Rightarrow>
             let key = take 10 s;
                 buckets' = (if \<not> Map_has buckets key
                             then Map_set buckets key
                                    \<lparr>sum_acc = Finite 0, count_acc = 0, dates_acc = []\<rparr>
                             else buckets)
             in (case Map_get buckets' key of
                   None \<Rightarrow> Inl TypeError
                 | Some bucket \<Rightarrow>
                     Inr (Map_set buckets' key
                            \<lparr>sum_acc = num_add (sum_acc bucket) (temperature pt),
                             count_acc = count_acc bucket + 1,
                             dates_acc = dates_acc bucket @ [time pt]\<rparr>)))
      else Inr buckets)"

fun forEach_point :: "TimeUnit \<Rightarrow> Buckets \<Rightarrow> TimePoint list \<Rightarrow> js_error + Buckets" where
  "forEach_point unit buckets [] = Inr buckets"
| "forEach_point unit buckets (pt # pts) =
     (case bucket_step unit buckets pt of
        Inl e \<Rightarrow> Inl e
      | Inr buckets' \<Rightarrow> forEach_point unit buckets' pts)"

definition bucket_point :: "(string \<Rightarrow> Date) \<Rightarrow> string \<times> Bucket \<Rightarrow> TimePoint option" where
  "bucket_point impl entry =
     (case entry of (key, b) \<Rightarrow>
        let avgTemp = num_div (sum_acc b) (of_count (count_acc b))
        in if isNaN avgTemp then None
           else Some \<lparr>time = new_Date impl (key @ ''T00:00:00.000Z''), temperature = avgTemp\<rparr>)"

text \<open>
  \<open>Array.prototype.sort\<close> is stable; a comparator result of NaN counts as zero. The
  model is the stable insertion sort (where the comparator is not an ordering, as with an
  Invalid Date among the times, the order a real engine gives is its own).
\<close>

definition compare_time :: "TimePoint \<Rightarrow> TimePoint \<Rightarrow> number" where
  "compare_time a b = num_sub (getTime (time a)) (getTime (time b))"

fun insert_sorted :: "('a \<Rightarrow> 'a \<Rightarrow> number) \<Rightarrow> 'a \<Rightarrow> 'a list \<Rightarrow> 'a list" where
  "insert_sorted cmp x [] = [x]"
| "insert_sorted cmp x (y # ys) =
     (if num_greater (cmp x y) (Finite 0) then y # insert_sorted cmp x ys else x # y # ys)"

definition js_sort :: "('a \<Rightarrow> 'a \<Rightarrow> number) \<Rightarrow> 'a list \<Rightarrow> 'a list" where
  "js_sort cmp xs = foldr (insert_sorted cmp) xs []"

definition aggregateByUnit ::
  "(string \<Rightarrow> Date) \<Rightarrow> TimePoint list \<Rightarrow> TimeUnit \<Rightarrow> js_error + TimePoint list" where
  "aggregateByUnit impl series unit =
     (if length series = 0 then Inr []
      else if unit = Hour then Inr series
      else (case forEach_point unit [] series of
              Inl e \<Rightarrow> Inl e
            | Inr buckets \<Rightarrow>
                Inr (js_sort compare_time (List.map_filter (bucket_point impl) buckets))))"

section \<open>debugWeatherDataPipeline\<close>

text \<open>\<open>rng[i].toISOString()\<close>: a read past the end gives \<open>undefined\<close>, and the call a TypeError.\<close>

definition toISOString_at :: "Date list \<Rightarrow> nat \<Rightarrow> js_error + string" where
  "toISOString_at rng i = (if i < length rng then toISOString (rng ! i) else Inl TypeError)"

text \<open>
  The body of the \<open>try\<close> block. The optional \<open>range\<close> is \<open>None\<close> when absent; the unit
  defaults to \<open>Hour\<close>.
\<close>

definition pipeline_try ::
  "(string \<Rightarrow> Date) \<Rightarrow> WeatherData option \<Rightarrow> Date list option \<Rightarrow> TimeUnit
     \<Rightarrow> js_error + TimePoint list" where
  "pipeline_try impl raw rng unit =
     (let parsed = fst (parseRawWeatherData impl raw)
      in if length parsed = 0 then Inr []
         else
           (case (case rng of None \<Rightarrow> Inr parsed | Some r \<Rightarrow> filterByRange parsed r) of
              Inl e \<Rightarrow> Inl e
            | Inr filtered \<Rightarrow>
                if rng \<noteq> None \<and> length filtered = 0 then Inr []
                else
                  (case aggregateByUnit impl filtered unit of
                     Inl e \<Rightarrow> Inl e
                   | Inr aggregated \<Rightarrow>
                       if length aggregated = 0 then Inr []
                       else
                         (case rng of
                            None \<Rightarrow> Inr aggregated
                          | Some r \<Rightarrow>
                              (case toISOString_at r 0 of
                                 Inl e \<Rightarrow> Inl e
                               | Inr _ \<Rightarrow>
                                   (case toISOString_at r 1 of
                                      Inl e \<Rightarrow> Inl e
                                    | Inr _ \<Rightarrow> Inr aggregated))))))"

text \<open>
  The \<open>catch\<close> turns every exception of the body into the empty result. The function
  returns the samples only; what the call does to the payload is what the parser does to it.
\<close>

definition debugWeatherDataPipeline ::
  "(string \<Rightarrow> Date) \<Rightarrow> WeatherData option \<Rightarrow> Date list option \<Rightarrow> TimeUnit option
     \<Rightarrow> TimePoint list" where
  "debugWeatherDataPipeline impl raw rng unit =
     (case pipeline_try impl raw rng (case unit of None \<Rightarrow> Hour | Some u \<Rightarrow> u) of
        Inl e \<Rightarrow> []
      | Inr r \<Rightarrow> r)"

section \<open>Notions of the specification\<close>

text \<open>
  The definitions of this section are not code of the repository: they name what the
  specification talks about, so that the theorems can compare the code with it.
\<close>

text \<open>The two arrays of a payload, absent as soon as one level above them is absent.\<close>

definition payload_times :: "WeatherData option \<Rightarrow> string list option" where
  "payload_times raw = Option.bind (Option.bind raw hourly) hourly_time"

definition payload_temps :: "WeatherData option \<Rightarrow> js_value list option" where
  "payload_temps raw = Option.bind (Option.bind raw hourly) hourly_temperature_2m"

text \<open>A pair the parser keeps: the time string gives a valid instant and the value is a
  number other than NaN.\<close>

definition accepted_pair :: "(string \<Rightarrow> Date) \<Rightarrow> string \<times> js_value \<Rightarrow> bool" where
  "accepted_pair impl p =
     (new_Date impl (fst p) \<noteq> InvalidDate
      \<and> (case snd p of JSNumber v \<Rightarrow> v \<noteq> NaN | JSNotNumber \<Rightarrow> False))"

text \<open>A pair as the specification words it: a valid instant and a finite number.\<close>

definition finite_pair :: "(string \<Rightarrow> Date) \<Rightarrow> string \<times> js_value \<Rightarrow> bool" where
  "finite_pair impl p =
     (new_Date impl (fst p) \<noteq> InvalidDate
      \<and> (case snd p of JSNumber (Finite r) \<Rightarrow> True | _ \<Rightarrow> False))"

definition sample_of :: "(string \<Rightarrow> Date) \<Rightarrow> string \<times> js_value \<Rightarrow> TimePoint" where
  "sample_of impl p =
     \<lparr>time = new_Date impl (fst p),
      temperature = (case snd p of JSNumber v \<Rightarrow> v | JSNotNumber \<Rightarrow> NaN)\<rparr>"

text \<open>The payload with both arrays cut to their first \<open>m\<close> entries, every other field kept.\<close>

definition truncate_arrays :: "nat \<Rightarrow> WeatherData \<Rightarrow> WeatherData" where
  "truncate_arrays m w =
     w\<lparr>hourly := map_option
          (\<lambda>h. h\<lparr>hourly_time := map_option (take m) (hourly_time h),
                 hourly_temperature_2m := map_option (take m) (hourly_temperature_2m h)\<rparr>)
          (hourly w)\<rparr>"

text \<open>Concrete inputs for the examples: an implementation parser that accepts nothing
  beyond the standard format, and a payload around two given arrays.\<close>

definition reject_all :: "string \<Rightarrow> Date" where
  "reject_all s = InvalidDate"

definition payload_of :: "string list \<Rightarrow> js_value list \<Rightarrow> WeatherData" where
  "payload_of ts vs =
     \<lparr>latitude = Finite 52, longitude = Finite 13, generationtime_ms = Finite 0,
      utc_offset_seconds = Finite 0, timezone = ''GMT'', timezone_abbreviation = ''GMT'',
      elevation = Finite 38,
      hourly_units = \<lparr>units_time = ''iso8601'', units_temperature_2m = ''C''\<rparr>,
      hourly = Some \<lparr>hourly_time = Some ts, hourly_temperature_2m = Some vs\<rparr>\<rparr>"























section \<open>Verified properties\<close>

subsection \<open>Dates: calendar fields, formatting and parsing\<close>















lemma read_digits_numeral:
  "read_digits (numeral n) s =
     (case s of
        [] \<Rightarrow> None
      | c # cs \<Rightarrow>
          (case digit_val c of
             None \<Rightarrow> None
           | Some d \<Rightarrow>
               (case read_digits (pred_numeral n) cs of
                  None \<Rightarrow> None
                | Some (v, rest) \<Rightarrow> Some (d * 10 ^ pred_numeral n + v, rest))))"
  using read_digits.simps(2) [of "pred_numeral n" s] by (simp only: numeral_eq_Suc [symmetric])

lemma pad_digits_numeral:
  "pad_digits (numeral n) k =
     digit_char (k div 10 ^ pred_numeral n mod 10) # pad_digits (pred_numeral n) k"
  using pad_digits.simps(2) [of "pred_numeral n" k] by (simp only: numeral_eq_Suc [symmetric])




lemma length_pad_digits [simp]: "length (pad_digits n k) = n"
  by (induction n) simp_all


















lemmas parse_defs = parse_utc_format_def read_year_def read_day_of_month_def read_tail_def
  read_time_utc_def read_seconds_def read_digits_numeral digit_val_def MakeDay_def MakeDate_def
  MakeTime_def DayFromYear_def MonthStart_def InLeapYear_def DaysInMonth_def msPerDay_def
  TimeClip_def new_Date_def Let_def

lemmas format_defs = iso_string_def year_string_def pad_digits_numeral digit_char_def
  char_of_def bit_Suc_0_iff YearFromTime_def YearFromDay_def DayNumber_def msPerDay_def
  DayFromYear_def MonthFromTime_def MonthFromDay_def InLeapYear_def DayWithinYear_def
  DateFromTime_def MonthStart_def TimeWithinDay_def Let_def


subsection \<open>filterByRange\<close>

lemma log_strings_ok: "InvalidDate \<notin> set ds \<Longrightarrow> \<exists>ss. log_strings ds = Inr ss"
proof (induction ds)
  case Nil
  then show ?case by simp
next
  case (Cons d ds)
  then obtain ss where "log_strings ds = Inr ss" by auto
  moreover obtain t where "d = ValidDate t" using Cons.prems by (cases d) auto
  ultimately show ?case by simp
qed

lemma log_strings_throws: "InvalidDate \<in> set ds \<Longrightarrow> log_strings ds = Inl RangeError"
proof (induction ds)
  case Nil
  then show ?case by simp
next
  case (Cons d ds)
  show ?case
  proof (cases d)
    case (ValidDate t)
    then have "log_strings ds = Inl RangeError" using Cons by auto
    then show ?thesis using ValidDate by simp
  next
    case InvalidDate
    then show ?thesis by simp
  qed
qed

lemma in_range_valid:
  "in_range (ValidDate a) (ValidDate b) pt =
     (case time pt of ValidDate t \<Rightarrow> a \<le> t \<and> t \<le> b | InvalidDate \<Rightarrow> False)"
  by (cases "time pt") (auto simp: in_range_def isNaN_def num_ge_def num_le_def)

lemma filterByRange_throws:
  "InvalidDate \<in> set rng \<Longrightarrow> filterByRange series rng = Inl RangeError"
  by (subst filterByRange.simps) (simp add: log_strings_throws)

lemma filterByRange_empty:
  "InvalidDate \<notin> set rng \<Longrightarrow> filterByRange [] rng = Inr []"
  using log_strings_ok [of rng] by (subst filterByRange.simps) auto

lemma filterByRange_malformed:
  "InvalidDate \<notin> set rng \<Longrightarrow> length rng \<noteq> 2 \<Longrightarrow> series \<noteq> [] \<Longrightarrow>
   filterByRange series rng = Inr series"
  using log_strings_ok [of rng] by (subst filterByRange.simps) auto

lemma filterByRange_ordered:
  "a \<le> b \<Longrightarrow> series \<noteq> [] \<Longrightarrow>
   filterByRange series [ValidDate a, ValidDate b] =
     Inr (filter (in_range (ValidDate a) (ValidDate b)) series)"
  by (subst filterByRange.simps) (simp add: isNaN_def num_greater_def Let_def)

lemma filterByRange_swap:
  "b < a \<Longrightarrow> series \<noteq> [] \<Longrightarrow>
   filterByRange series [ValidDate a, ValidDate b] = filterByRange series [ValidDate b, ValidDate a]"
  by (subst filterByRange.simps) (simp add: isNaN_def num_greater_def Let_def)

lemma filterByRange_pair:
  "filterByRange series [ValidDate a, ValidDate b] =
     Inr (filter (in_range (ValidDate (min a b)) (ValidDate (max a b))) series)"
proof (cases "series = []")
  case True
  then show ?thesis using filterByRange_empty [of "[ValidDate a, ValidDate b]"] by simp
next
  case False
  show ?thesis
  proof (cases "a \<le> b")
    case True
    then show ?thesis using False by (simp add: filterByRange_ordered min_def max_def)
  next
    case gt: False
    then have "b < a" by simp
    then show ?thesis
      using False filterByRange_swap [of b a series] filterByRange_ordered [of b a series]
      by (simp add: min_def max_def)
  qed
qed

lemma filterByRange_cases:
  "InvalidDate \<notin> set rng \<Longrightarrow>
   filterByRange series rng = Inr series \<or>
   (\<exists>a b. filterByRange series rng = Inr (filter (in_range (ValidDate a) (ValidDate b)) series))"
proof -
  assume ok: "InvalidDate \<notin> set rng"
  show ?thesis
  proof (cases "series = []")
    case True
    then show ?thesis using filterByRange_empty [OF ok] by simp
  next
    case ne: False
    show ?thesis
    proof (cases "length rng = 2")
      case False
      then show ?thesis using filterByRange_malformed [OF ok _ ne] by simp
    next
      case True
      then obtain x y where rng: "rng = [x, y]"
        by (cases rng; cases "tl rng") auto
      obtain a where x: "x = ValidDate a" using ok rng by (cases x) auto
      obtain b where y: "y = ValidDate b" using ok rng by (cases y) auto
      show ?thesis unfolding rng x y filterByRange_pair by blast
    qed
  qed
qed

text \<open>
  C5, at the failing input. With an Invalid Date as a bound the call does not return its
  input: the debug output at the top of the function formats every bound with
  \<open>toISOString\<close>, which throws a RangeError before the guard for invalid bounds is
  reached.
\<close>

theorem filterByRange_invalid_bound_throws:
  "filterByRange [\<lparr>time = ValidDate 5, temperature = Finite 1\<rparr>] [InvalidDate, ValidDate 0]
   = Inl RangeError"
  by (rule filterByRange_throws) simp

text \<open>
  C8. For valid instants \<open>a < b\<close> the inverted range \<open>[b, a]\<close> gives the result of
  \<open>[a, b]\<close>, which is the list of the samples with a valid time between \<open>a\<close> and \<open>b\<close>,
  both bounds included.
\<close>

theorem filterByRange_inverted_range:
  "a < b \<Longrightarrow>
   filterByRange series [ValidDate b, ValidDate a] = filterByRange series [ValidDate a, ValidDate b]
   \<and> filterByRange series [ValidDate a, ValidDate b]
       = Inr (filter (\<lambda>pt. case time pt of ValidDate t \<Rightarrow> a \<le> t \<and> t \<le> b | InvalidDate \<Rightarrow> False)
               series)"
  by (simp add: filterByRange_pair min_def max_def in_range_valid [abs_def])

theorem filterByRange_inverted_range_witness:
  "(10::int) < 20 \<and>
   filterByRange [\<lparr>time = ValidDate 5, temperature = Finite 1\<rparr>,
                  \<lparr>time = ValidDate 10, temperature = Finite 2\<rparr>,
                  \<lparr>time = InvalidDate, temperature = Finite 3\<rparr>,
                  \<lparr>time = ValidDate 20, temperature = Finite 4\<rparr>] [ValidDate 20, ValidDate 10]
   = Inr [\<lparr>time = ValidDate 10, temperature = Finite 2\<rparr>,
          \<lparr>time = ValidDate 20, temperature = Finite 4\<rparr>]"
  using filterByRange_inverted_range [of 10 20
      "[\<lparr>time = ValidDate 5, temperature = Finite 1\<rparr>,
        \<lparr>time = ValidDate 10, temperature = Finite 2\<rparr>,
        \<lparr>time = InvalidDate, temperature = Finite 3\<rparr>,
        \<lparr>time = ValidDate 20, temperature = Finite 4\<rparr>]"]
  by simp

text \<open>
  C10. Whenever filterByRange returns, its output is a subsequence of the input: the
  retained samples are samples of the input, unchanged and in their original order. The
  only other outcome is the RangeError of a range that holds an Invalid Date.
\<close>

theorem filterByRange_subseq:
  "(case filterByRange series rng of
      Inr out \<Rightarrow> subseq out series
    | Inl e \<Rightarrow> e = RangeError \<and> InvalidDate \<in> set rng)"
proof (cases "InvalidDate \<in> set rng")
  case True
  then show ?thesis by (simp add: filterByRange_throws)
next
  case False
  then show ?thesis using filterByRange_cases [OF False, of series] by auto
qed

theorem filterByRange_subseq_witness:
  "filterByRange [\<lparr>time = ValidDate 5, temperature = Finite 1\<rparr>,
                  \<lparr>time = ValidDate 30, temperature = Finite 2\<rparr>,
                  \<lparr>time = ValidDate 15, temperature = Finite 3\<rparr>] [ValidDate 0, ValidDate 20]
   = Inr [\<lparr>time = ValidDate 5, temperature = Finite 1\<rparr>,
          \<lparr>time = ValidDate 15, temperature = Finite 3\<rparr>]
   \<and> subseq [\<lparr>time = ValidDate 5, temperature = Finite 1\<rparr>,
             \<lparr>time = ValidDate 15, temperature = Finite 3\<rparr>]
        [\<lparr>time = ValidDate 5, temperature = Finite 1\<rparr>,
         \<lparr>time = ValidDate 30, temperature = Finite 2\<rparr>,
         \<lparr>time = ValidDate 15, temperature = Finite 3\<rparr>]"
proof -
  let ?s = "[\<lparr>time = ValidDate 5, temperature = Finite 1\<rparr>,
             \<lparr>time = ValidDate 30, temperature = Finite 2\<rparr>,
             \<lparr>time = ValidDate 15, temperature = Finite 3\<rparr>]"
  have r: "filterByRange ?s [ValidDate 0, ValidDate 20]
      = Inr [\<lparr>time = ValidDate 5, temperature = Finite 1\<rparr>,
             \<lparr>time = ValidDate 15, temperature = Finite 3\<rparr>]"
    by (simp add: filterByRange_pair in_range_valid)
  show ?thesis
    using filterByRange_subseq [where series = ?s and rng = "[ValidDate 0, ValidDate 20]"] r
    by simp
qed

subsection \<open>parseRawWeatherData\<close>

lemma map_filter_cong_map:
  "map f xs = map g ys \<Longrightarrow> List.map_filter f xs = List.map_filter g ys"
proof -
  assume eq: "map f xs = map g ys"
  have "\<And>h zs. List.map_filter h zs = map the (filter (\<lambda>y. y \<noteq> None) (map h zs))"
    by (simp add: List.map_filter_def filter_map comp_def)
  then have "List.map_filter f xs = map the (filter (\<lambda>y. y \<noteq> None) (map f xs))"
    and "List.map_filter g ys = map the (filter (\<lambda>y. y \<noteq> None) (map g ys))"
    by blast+
  then show ?thesis by (simp only: eq)
qed

lemma parse_point_pair:
  "i < length vs \<Longrightarrow>
   parse_point impl vs (i, s) =
     (if accepted_pair impl (s, vs ! i) then Some (sample_of impl (s, vs ! i)) else None)"
  by (cases "vs ! i"; cases "new_Date impl s")
     (auto simp: parse_point_def accepted_pair_def sample_of_def array_get_def isNaN_def Let_def)

lemma parse_points_zip:
  assumes "length ts = length vs"
  shows "List.map_filter (parse_point impl vs) (enumerate 0 ts)
         = map (sample_of impl) (filter (accepted_pair impl) (zip ts vs))"
proof -
  let ?g = "\<lambda>p. if accepted_pair impl p then Some (sample_of impl p) else None"
  have "map (parse_point impl vs) (enumerate 0 ts) = map ?g (zip ts vs)"
    using assms by (intro nth_equalityI) (simp_all add: nth_enumerate_eq parse_point_pair)
  then have "List.map_filter (parse_point impl vs) (enumerate 0 ts) = List.map_filter ?g (zip ts vs)"
    by (rule map_filter_cong_map)
  also have "\<dots> = map (sample_of impl) (filter (accepted_pair impl) (zip ts vs))"
    by (induction "zip ts vs" arbitrary: ts vs) (auto simp: List.map_filter_def)
  finally show ?thesis .
qed

lemma parse_absent:
  "payload_times raw = None \<or> payload_temps raw = None \<Longrightarrow> parseRawWeatherData impl raw = ([], raw)"
  by (auto simp: parseRawWeatherData_def payload_times_def payload_temps_def
           split: option.splits Option.bind_splits)

lemma parse_present:
  assumes "payload_times raw = Some ts" "payload_temps raw = Some vs"
  shows "parseRawWeatherData impl raw =
     (if ts = [] \<or> vs = [] then ([], raw)
      else (map (sample_of impl) (filter (accepted_pair impl)
              (zip (take (min (length ts) (length vs)) ts) (take (min (length ts) (length vs)) vs))),
            if length ts = length vs then raw
            else map_option (truncate_arrays (min (length ts) (length vs))) raw))"
proof -
  obtain w h where w: "raw = Some w" and h: "hourly w = Some h"
    and t: "hourly_time h = Some ts" and v: "hourly_temperature_2m h = Some vs"
    using assms by (auto simp: payload_times_def payload_temps_def split: Option.bind_splits)
  let ?m = "min (length ts) (length vs)"
  have trunc: "List.map_filter (parse_point impl (take ?m vs)) (enumerate 0 (take ?m ts))
      = map (sample_of impl) (filter (accepted_pair impl) (zip (take ?m ts) (take ?m vs)))"
    by (rule parse_points_zip) simp
  have same: "length ts = length vs \<Longrightarrow> w\<lparr>hourly := Some (h\<lparr>hourly_time := Some ts,
      hourly_temperature_2m := Some vs\<rparr>)\<rparr> = w"
    using h t v by simp
  show ?thesis
  proof (cases "ts = [] \<or> vs = []")
    case True
    then show ?thesis using w h t v by (auto simp: parseRawWeatherData_def)
  next
    case False
    show ?thesis
    proof (cases "length ts = length vs")
      case True
      then show ?thesis
        using False w h t v trunc same
        by (simp add: parseRawWeatherData_def Let_def)
    next
      case ne: False
      then show ?thesis
        using False w h t v trunc
        by (simp add: parseRawWeatherData_def Let_def splice_from_def truncate_arrays_def)
    qed
  qed
qed

lemma payload_of_arrays [simp]:
  "payload_times (Some (payload_of ts vs)) = Some ts"
  "payload_temps (Some (payload_of ts vs)) = Some vs"
  by (simp_all add: payload_times_def payload_temps_def payload_of_def)

lemma payload_of_inject [simp]:
  "payload_of ts vs = payload_of ts' vs' \<longleftrightarrow> ts = ts' \<and> vs = vs'"
  by (auto simp: payload_of_def)

lemma truncate_payload_of [simp]:
  "truncate_arrays m (payload_of ts vs) = payload_of (take m ts) (take m vs)"
  by (simp add: truncate_arrays_def payload_of_def)

lemma new_Date_example_0901 [simp]:
  "new_Date impl ''2025-07-09T01:00:00.000Z'' = ValidDate 1752022800000"
  by (simp add: parse_defs)

lemma new_Date_example_0913 [simp]:
  "new_Date impl ''2025-07-09T13:00:00.000Z'' = ValidDate 1752066000000"
  by (simp add: parse_defs)

lemma new_Date_example_1000 [simp]:
  "new_Date impl ''2025-07-10T00:00:00.000Z'' = ValidDate 1752105600000"
  by (simp add: parse_defs)

lemma new_Date_example_bad [simp]:
  "new_Date reject_all ''not a date'' = InvalidDate"
  by (simp add: parse_defs reject_all_def)

text \<open>
  C1, as the code has it. The function has no failing branch. It returns the empty list
  when an array is absent (at any level) or empty; for arrays of equal length it returns,
  in input order, one sample for each index whose time string gives a valid instant and
  whose value is a number other than NaN, so it keeps an infinite temperature.
\<close>

theorem parseRawWeatherData_result:
  "((payload_times raw = None \<or> payload_temps raw = None
      \<or> payload_times raw = Some [] \<or> payload_temps raw = Some [])
     \<longrightarrow> fst (parseRawWeatherData impl raw) = [])
   \<and> (payload_times raw = Some ts \<and> payload_temps raw = Some vs \<and> length ts = length vs
     \<longrightarrow> fst (parseRawWeatherData impl raw)
           = map (sample_of impl) (filter (accepted_pair impl) (zip ts vs))
         \<and> length (fst (parseRawWeatherData impl raw))
           = length (filter (accepted_pair impl) (zip ts vs)))"
proof (intro conjI impI)
  assume a: "payload_times raw = None \<or> payload_temps raw = None
      \<or> payload_times raw = Some [] \<or> payload_temps raw = Some []"
  show "fst (parseRawWeatherData impl raw) = []"
  proof (cases "payload_times raw = None \<or> payload_temps raw = None")
    case True
    then show ?thesis by (simp add: parse_absent)
  next
    case False
    then obtain ts' vs' where p: "payload_times raw = Some ts'" "payload_temps raw = Some vs'"
      by auto
    with a have "ts' = [] \<or> vs' = []" by auto
    then show ?thesis using parse_present [OF p, of impl] by auto
  qed
next
  assume b: "payload_times raw = Some ts \<and> payload_temps raw = Some vs \<and> length ts = length vs"
  then have p: "payload_times raw = Some ts" "payload_temps raw = Some vs"
    and len: "length ts = length vs" by auto
  show r: "fst (parseRawWeatherData impl raw)
      = map (sample_of impl) (filter (accepted_pair impl) (zip ts vs))"
    using parse_present [OF p, of impl] len by auto
  show "length (fst (parseRawWeatherData impl raw))
      = length (filter (accepted_pair impl) (zip ts vs))"
    by (simp add: r)
qed

theorem parseRawWeatherData_result_witness:
  "fst (parseRawWeatherData reject_all None) = []
   \<and> fst (parseRawWeatherData reject_all
       (Some (payload_of [''2025-07-09T01:00:00.000Z'', ''not a date'', ''2025-07-09T13:00:00.000Z'',
                           ''2025-07-10T00:00:00.000Z'']
                          [JSNumber (Finite 10), JSNumber (Finite 11), JSNotNumber, JSNumber NaN])))
     = [\<lparr>time = ValidDate 1752022800000, temperature = Finite 10\<rparr>]"
proof -
  have "fst (parseRawWeatherData reject_all None) = []"
    using parseRawWeatherData_result [where raw = None and impl = reject_all]
    by (simp add: payload_times_def)
  moreover have "fst (parseRawWeatherData reject_all
       (Some (payload_of [''2025-07-09T01:00:00.000Z'', ''not a date'', ''2025-07-09T13:00:00.000Z'',
                           ''2025-07-10T00:00:00.000Z'']
                          [JSNumber (Finite 10), JSNumber (Finite 11), JSNotNumber, JSNumber NaN])))
     = [\<lparr>time = ValidDate 1752022800000, temperature = Finite 10\<rparr>]"
    using parseRawWeatherData_result [where impl = reject_all and raw =
        "Some (payload_of [''2025-07-09T01:00:00.000Z'', ''not a date'', ''2025-07-09T13:00:00.000Z'',
                           ''2025-07-10T00:00:00.000Z'']
                          [JSNumber (Finite 10), JSNumber (Finite 11), JSNotNumber, JSNumber NaN])"
        and ts = "[''2025-07-09T01:00:00.000Z'', ''not a date'', ''2025-07-09T13:00:00.000Z'',
                           ''2025-07-10T00:00:00.000Z'']"
        and vs = "[JSNumber (Finite 10), JSNumber (Finite 11), JSNotNumber, JSNumber NaN]"]
    by (simp add: accepted_pair_def sample_of_def)
  ultimately show ?thesis by simp
qed

text \<open>
  The claim as stated, with finite temperatures, fails: an infinite temperature beside a
  valid time is kept, so the output is longer than the count of finite pairs.
\<close>

theorem parseRawWeatherData_infinite_counterexample:
  "length (fst (parseRawWeatherData reject_all
             (Some (payload_of [''2025-07-09T01:00:00.000Z''] [JSNumber PosInf]))))
   \<noteq> length (filter (finite_pair reject_all)
             (zip [''2025-07-09T01:00:00.000Z''] [JSNumber PosInf]))"
  using parse_present [of "Some (payload_of [''2025-07-09T01:00:00.000Z''] [JSNumber PosInf])"
      "[''2025-07-09T01:00:00.000Z'']" "[JSNumber PosInf]" reject_all]
  by (simp add: accepted_pair_def finite_pair_def)



text \<open>
  C4, as the code has it. The call leaves the payload as it was, except when both arrays
  are present, not empty and of different lengths: then both arrays are cut in place to
  the shorter length, and nothing else changes.
\<close>

theorem parseRawWeatherData_payload_effect:
  "snd (parseRawWeatherData impl raw) =
     (case (payload_times raw, payload_temps raw) of
        (Some ts, Some vs) \<Rightarrow>
          if ts \<noteq> [] \<and> vs \<noteq> [] \<and> length ts \<noteq> length vs
          then map_option (truncate_arrays (min (length ts) (length vs))) raw
          else raw
      | _ \<Rightarrow> raw)"
proof (cases "payload_times raw = None \<or> payload_temps raw = None")
  case True
  then show ?thesis by (auto simp: parse_absent split: option.splits)
next
  case False
  then obtain ts vs where p: "payload_times raw = Some ts" "payload_temps raw = Some vs"
    by auto
  show ?thesis using parse_present [OF p, of impl] p by auto
qed

theorem parseRawWeatherData_payload_effect_witness:
  "snd (parseRawWeatherData reject_all
      (Some (payload_of [''2025-07-09T01:00:00.000Z'', ''2025-07-09T13:00:00.000Z'',
                          ''2025-07-10T00:00:00.000Z'']
                         [JSNumber (Finite 5), JSNumber (Finite 6)])))
   = Some (payload_of [''2025-07-09T01:00:00.000Z'', ''2025-07-09T13:00:00.000Z'']
                       [JSNumber (Finite 5), JSNumber (Finite 6)])
   \<and> snd (parseRawWeatherData reject_all
      (Some (payload_of [''2025-07-09T01:00:00.000Z''] [JSNumber (Finite 5)])))
   = Some (payload_of [''2025-07-09T01:00:00.000Z''] [JSNumber (Finite 5)])"
  using parseRawWeatherData_payload_effect [where impl = reject_all and raw =
      "Some (payload_of [''2025-07-09T01:00:00.000Z'', ''2025-07-09T13:00:00.000Z'',
                          ''2025-07-10T00:00:00.000Z'']
                         [JSNumber (Finite 5), JSNumber (Finite 6)])"]
    parseRawWeatherData_payload_effect [where impl = reject_all and raw =
      "Some (payload_of [''2025-07-09T01:00:00.000Z''] [JSNumber (Finite 5)])"]
  by simp

text \<open>
  The claim as stated fails: with three times and two temperatures the payload comes back
  with its \<open>hourly.time\<close> array one entry shorter.
\<close>

theorem parseRawWeatherData_mutates_counterexample:
  "snd (parseRawWeatherData reject_all
      (Some (payload_of [''2025-07-09T01:00:00.000Z'', ''2025-07-09T13:00:00.000Z'',
                          ''2025-07-10T00:00:00.000Z'']
                         [JSNumber (Finite 5), JSNumber (Finite 6)])))
   \<noteq> Some (payload_of [''2025-07-09T01:00:00.000Z'', ''2025-07-09T13:00:00.000Z'',
                          ''2025-07-10T00:00:00.000Z'']
                         [JSNumber (Finite 5), JSNumber (Finite 6)])"
  using parse_present [of "Some (payload_of [''2025-07-09T01:00:00.000Z'',
        ''2025-07-09T13:00:00.000Z'', ''2025-07-10T00:00:00.000Z'']
        [JSNumber (Finite 5), JSNumber (Finite 6)])"
      "[''2025-07-09T01:00:00.000Z'', ''2025-07-09T13:00:00.000Z'', ''2025-07-10T00:00:00.000Z'']"
      "[JSNumber (Finite 5), JSNumber (Finite 6)]" reject_all]
  by simp

subsection \<open>aggregateByUnit, unit Hour\<close>

text \<open>
  C9. With unit \<open>Hour\<close> the aggregator returns its input, so aggregating the parser's
  output by the hour gives the parser's output.
\<close>

theorem aggregateByUnit_Hour_identity:
  "aggregateByUnit impl series Hour = Inr series
   \<and> aggregateByUnit impl (fst (parseRawWeatherData impl raw)) Hour
       = Inr (fst (parseRawWeatherData impl raw))"
  by (simp add: aggregateByUnit_def)

theorem aggregateByUnit_Hour_identity_witness:
  "aggregateByUnit reject_all [\<lparr>time = ValidDate 30, temperature = Finite 2\<rparr>,
                               \<lparr>time = InvalidDate, temperature = NaN\<rparr>,
                               \<lparr>time = ValidDate 5, temperature = PosInf\<rparr>] Hour
   = Inr [\<lparr>time = ValidDate 30, temperature = Finite 2\<rparr>,
          \<lparr>time = InvalidDate, temperature = NaN\<rparr>,
          \<lparr>time = ValidDate 5, temperature = PosInf\<rparr>]"
  using aggregateByUnit_Hour_identity [where impl = reject_all and raw = None and series =
      "[\<lparr>time = ValidDate 30, temperature = Finite 2\<rparr>,
        \<lparr>time = InvalidDate, temperature = NaN\<rparr>,
        \<lparr>time = ValidDate 5, temperature = PosInf\<rparr>]"]
  by simp

subsection \<open>calculateCentroid\<close>










subsection \<open>debugWeatherDataPipeline\<close>

lemma map_of_Map_set: "map_of (Map_set m k v) = (map_of m)(k \<mapsto> v)"
  by (induction m) auto

lemma bucket_step_returns: "\<exists>b'. bucket_step unit b pt = Inr b'"
proof (cases "time pt")
  case (ValidDate t)
  then show ?thesis
    by (simp add: bucket_step_def Let_def Map_has_def Map_get_def map_of_Map_set
        split: option.splits)
next
  case InvalidDate
  then show ?thesis by (simp add: bucket_step_def isNaN_def)
qed

lemma forEach_point_returns: "\<exists>b'. forEach_point unit b series = Inr b'"
proof (induction series arbitrary: b)
  case Nil
  then show ?case by simp
next
  case (Cons pt series)
  obtain b1 where "bucket_step unit b pt = Inr b1" using bucket_step_returns by blast
  then show ?case using Cons [of b1] by simp
qed

lemma aggregateByUnit_returns: "\<exists>out. aggregateByUnit impl series unit = Inr out"
  using forEach_point_returns [of unit "[]" series] by (auto simp: aggregateByUnit_def)

lemma toISOString_at_ok:
  "InvalidDate \<notin> set r \<Longrightarrow> i < length r \<Longrightarrow> \<exists>s. toISOString_at r i = Inr s"
  by (cases "r ! i") (auto simp: toISOString_at_def dest: nth_mem)

lemma filterByRange_returns_valid:
  "filterByRange series r = Inr out \<Longrightarrow> InvalidDate \<notin> set r"
  using filterByRange_throws [of r series] by auto

text \<open>
  C7. The orchestrator is a total function: the exceptions of the body of its \<open>try\<close>
  block end in the empty result. It returns the empty list when the parser's output is
  empty, when a supplied range filters everything out, and when the filter throws; with
  no failure it returns what the aggregator returns. (A range with fewer than two
  elements makes the closing debug output throw, which again ends in the empty list.)
\<close>

theorem debugWeatherDataPipeline_never_raises:
  assumes "parsed = fst (parseRawWeatherData impl raw)"
    and "u = (case unit of None \<Rightarrow> Hour | Some x \<Rightarrow> x)"
    and "run = debugWeatherDataPipeline impl raw rng unit"
  shows "(parsed = [] \<longrightarrow> run = [])
   \<and> (rng = Some r \<and> filterByRange parsed r = Inr [] \<longrightarrow> run = [])
   \<and> (rng = Some r \<and> filterByRange parsed r = Inl e \<longrightarrow> run = [])
   \<and> (pipeline_try impl raw rng u = Inl e' \<longrightarrow> run = [])
   \<and> (rng = Some r \<and> length r < 2 \<longrightarrow> run = [])
   \<and> (rng = None \<and> parsed \<noteq> [] \<longrightarrow> aggregateByUnit impl parsed u = Inr run)
   \<and> (rng = Some r \<and> 2 \<le> length r \<and> filterByRange parsed r = Inr filtered \<and> filtered \<noteq> []
        \<longrightarrow> aggregateByUnit impl filtered u = Inr run)
   \<and> debugWeatherDataPipeline impl (Some (payload_of [] [])) None (Some Hour) = []"
proof (intro conjI impI)
  note defs = debugWeatherDataPipeline_def pipeline_try_def Let_def
  show "run = []" if "parsed = []"
    using that assms by (simp add: defs)
  show "run = []" if "rng = Some r \<and> filterByRange parsed r = Inr []"
    using that assms by (simp add: defs)
  show "run = []" if "rng = Some r \<and> filterByRange parsed r = Inl e"
    using that assms by (simp add: defs)
  show "run = []" if "pipeline_try impl raw rng u = Inl e'"
    using that assms by (simp add: debugWeatherDataPipeline_def)
  show "run = []" if "rng = Some r \<and> length r < 2"
    using that assms
    by (auto simp: defs toISOString_at_def split: sum.splits)
  show "aggregateByUnit impl parsed u = Inr run" if "rng = None \<and> parsed \<noteq> []"
    using that assms aggregateByUnit_returns [of impl parsed u]
    by (auto simp: defs)
  show "aggregateByUnit impl filtered u = Inr run"
    if h: "rng = Some r \<and> 2 \<le> length r \<and> filterByRange parsed r = Inr filtered \<and> filtered \<noteq> []"
  proof -
    have ok: "InvalidDate \<notin> set r" using h filterByRange_returns_valid by blast
    have "0 < length r" "1 < length r" using h by auto
    then obtain s0 s1 where "toISOString_at r 0 = Inr s0" "toISOString_at r 1 = Inr s1"
      using toISOString_at_ok [OF ok] by blast
    moreover have "parsed \<noteq> []"
      using h filterByRange_empty [OF ok] by auto
    ultimately show ?thesis
      using h assms aggregateByUnit_returns [of impl filtered u]
      by (auto simp: defs)
  qed
  show "debugWeatherDataPipeline impl (Some (payload_of [] [])) None (Some Hour) = []"
    using parse_present [of "Some (payload_of [] [])" "[]" "[]" impl]
    by (simp add: defs)
qed


theorem debugWeatherDataPipeline_never_raises_witness:
  "debugWeatherDataPipeline reject_all None None None = []
   \<and> debugWeatherDataPipeline reject_all
        (Some (payload_of [''2025-07-09T01:00:00.000Z''] [JSNumber (Finite 10)]))
        (Some [ValidDate 0, ValidDate 10]) None = []
   \<and> debugWeatherDataPipeline reject_all
        (Some (payload_of [''2025-07-09T01:00:00.000Z''] [JSNumber (Finite 10)]))
        (Some [InvalidDate, ValidDate 0]) None = []
   \<and> debugWeatherDataPipeline reject_all
        (Some (payload_of [''2025-07-09T01:00:00.000Z''] [JSNumber (Finite 10)]))
        (Some [ValidDate 0]) None = []
   \<and> debugWeatherDataPipeline reject_all
        (Some (payload_of [''2025-07-09T01:00:00.000Z''] [JSNumber (Finite 10)]))
        None (Some Hour) = [\<lparr>time = ValidDate 1752022800000, temperature = Finite 10\<rparr>]
   \<and> debugWeatherDataPipeline reject_all
        (Some (payload_of [''2025-07-09T01:00:00.000Z''] [JSNumber (Finite 10)]))
        (Some [ValidDate 0, ValidDate 2000000000000]) (Some Day)
       = [\<lparr>time = ValidDate 1752019200000, temperature = Finite 10\<rparr>]"
proof -
  let ?raw = "Some (payload_of [''2025-07-09T01:00:00.000Z''] [JSNumber (Finite 10)])"
  let ?pt = "\<lparr>time = ValidDate 1752022800000, temperature = Finite 10\<rparr>"
  have parsed: "fst (parseRawWeatherData reject_all ?raw) = [?pt]"
    using parse_present [of ?raw "[''2025-07-09T01:00:00.000Z'']" "[JSNumber (Finite 10)]"
        reject_all]
    by (simp add: accepted_pair_def sample_of_def)
  have none: "fst (parseRawWeatherData reject_all None) = []"
    by (simp add: parse_absent payload_times_def)
  have day: "aggregateByUnit reject_all [?pt] Day
      = Inr [\<lparr>time = ValidDate 1752019200000, temperature = Finite 10\<rparr>]"
    by (simp add: aggregateByUnit_def bucket_step_def Map_has_def Map_get_def bucket_point_def
        js_sort_def List.map_filter_def of_count_def isNaN_def format_defs parse_defs)
  have c1: "debugWeatherDataPipeline reject_all None None None = []"
    using debugWeatherDataPipeline_never_raises [OF refl refl refl,
        where impl = reject_all and raw = None and rng = None and unit = None] none
    by simp
  have c2: "debugWeatherDataPipeline reject_all ?raw (Some [ValidDate 0, ValidDate 10]) None = []"
    using debugWeatherDataPipeline_never_raises [OF refl refl refl,
        where impl = reject_all and raw = ?raw and rng = "Some [ValidDate 0, ValidDate 10]"
          and unit = None and r = "[ValidDate 0, ValidDate 10]"]
    by (simp add: parsed filterByRange_pair in_range_valid)
  have c3: "debugWeatherDataPipeline reject_all ?raw (Some [InvalidDate, ValidDate 0]) None = []"
    using debugWeatherDataPipeline_never_raises [OF refl refl refl,
        where impl = reject_all and raw = ?raw and rng = "Some [InvalidDate, ValidDate 0]"
          and unit = None and r = "[InvalidDate, ValidDate 0]" and e = RangeError]
    by (simp add: parsed filterByRange_throws)
  have c4: "debugWeatherDataPipeline reject_all ?raw (Some [ValidDate 0]) None = []"
    using debugWeatherDataPipeline_never_raises [OF refl refl refl,
        where impl = reject_all and raw = ?raw and rng = "Some [ValidDate 0]"
          and unit = None and r = "[ValidDate 0]"]
    by simp
  have c5: "debugWeatherDataPipeline reject_all ?raw None (Some Hour) = [?pt]"
    using debugWeatherDataPipeline_never_raises [OF refl refl refl,
        where impl = reject_all and raw = ?raw and rng = None and unit = "Some Hour"]
    by (simp add: parsed aggregateByUnit_def)
  have c6: "debugWeatherDataPipeline reject_all ?raw
        (Some [ValidDate 0, ValidDate 2000000000000]) (Some Day)
       = [\<lparr>time = ValidDate 1752019200000, temperature = Finite 10\<rparr>]"
    using debugWeatherDataPipeline_never_raises [OF refl refl refl,
        where impl = reject_all and raw = ?raw
          and rng = "Some [ValidDate 0, ValidDate 2000000000000]"
          and unit = "Some Day" and r = "[ValidDate 0, ValidDate 2000000000000]"
          and filtered = "[?pt]"]
    by (simp add: parsed filterByRange_pair in_range_valid day)
  show ?thesis using c1 c2 c3 c4 c5 c6 by simp
qed

subsection \<open>aggregateByUnit, unit Day\<close>

























end
